theory Spec2Isabelle
  imports Main
begin

section \<open>Text\<close>

text \<open>
  Python text is modelled as \<^typ>\<open>string\<close>; the few characters outside ASCII that the
  reports contain are written as their UTF-8 bytes.
\<close>

definition lower_char :: "char \<Rightarrow> char" where
  "lower_char c =
     (let n = (of_char c :: nat) in if 65 \<le> n \<and> n \<le> 90 then char_of (n + 32) else c)"

text \<open>\<open>str.lower()\<close> on ASCII text.\<close>

definition lower :: "string \<Rightarrow> string" where
  "lower s = map lower_char s"

definition digit_char :: "nat \<Rightarrow> char" where
  "digit_char d = char_of (48 + d)"

function str_nat :: "nat \<Rightarrow> string" where
  "str_nat n = (if n < 10 then [digit_char n] else str_nat (n div 10) @ [digit_char (n mod 10)])"
  by pat_completeness auto
termination
  by (relation "measure id") auto

declare str_nat.simps [simp del]

text \<open>\<open>str(i)\<close> for a Python integer.\<close>

definition str_int :: "int \<Rightarrow> string" where
  "str_int i = (if i < 0 then CHR ''-'' # str_nat (nat (- i)) else str_nat (nat i))"

text \<open>
  \<open>s.count(sub)\<close>: the number of non-overlapping occurrences of \<open>sub\<close> in \<open>s\<close>,
  found from the left.
\<close>

function count_str :: "string \<Rightarrow> string \<Rightarrow> nat" where
  "count_str s sub =
     (if sub = [] then length s + 1
      else if length s < length sub then 0
      else if take (length sub) s = sub then 1 + count_str (drop (length sub) s) sub
      else count_str (tl s) sub)"
  by pat_completeness auto
termination
  by (relation "measure (\<lambda>(s, sub). length s)") (auto simp: not_less neq_Nil_conv)

declare count_str.simps [simp del]

text \<open>\<open>os.path.join(a, b)\<close> on POSIX paths.\<close>

definition path_join :: "string \<Rightarrow> string \<Rightarrow> string" where
  "path_join a b =
     (if b \<noteq> [] \<and> hd b = CHR ''/'' then b
      else if a = [] \<or> last a = CHR ''/'' then a @ b
      else a @ ''/'' @ b)"

text \<open>Truthiness of an optional string: \<open>None\<close> and the empty string are false.\<close>

fun truthy :: "string option \<Rightarrow> bool" where
  "truthy None = False"
| "truthy (Some s) = (s \<noteq> [])"

section \<open>The world outside the program\<close>

text \<open>
  The scripts reach outside through four operations: \<open>subprocess.run\<close>,
  \<open>os.path.exists\<close>, opening a file for reading and opening one for writing. A path
  holds either a text file or something that exists but cannot be opened as text
  (a directory, a file without permission, bytes that do not decode). The external tools
  are an arbitrary function of the command line, the time budget and the file system:
  a call either completes with a return code or raises. Every exception it can raise is
  a subclass of \<open>Exception\<close>. Console output and the clock cannot fail and are left out;
  the two clock readings the report prints are inputs.
\<close>

datatype node = TextFile string | Blocked

type_synonym fs = "string \<Rightarrow> node option"

datatype exn = TimeoutExpired | FileNotFoundError | OSError

record completed_process =
  returncode :: int
  stderr :: string

datatype event = Ran "string list" | OpenedRead string | OpenedWrite string

record world =
  files :: fs
  trace :: "event list"

record env =
  SUMO_HOME :: "string option"
  tool :: "string list \<Rightarrow> nat \<Rightarrow> fs \<Rightarrow> (exn + completed_process) \<times> fs"

type_synonym 'a io = "world \<Rightarrow> (exn + 'a) \<times> world"

definition subprocess_run :: "env \<Rightarrow> string list \<Rightarrow> nat \<Rightarrow> completed_process io" where
  "subprocess_run e cmd timeout w =
     (case tool e cmd timeout (files w) of
        (r, fs') \<Rightarrow> (r, w\<lparr>files := fs', trace := trace w @ [Ran cmd]\<rparr>))"

definition path_exists :: "string \<Rightarrow> world \<Rightarrow> bool" where
  "path_exists p w = (files w p \<noteq> None)"

definition read_text :: "string \<Rightarrow> string io" where
  "read_text p w =
     (let w' = w\<lparr>trace := trace w @ [OpenedRead p]\<rparr> in
      case files w p of
        None \<Rightarrow> (Inl FileNotFoundError, w')
      | Some Blocked \<Rightarrow> (Inl OSError, w')
      | Some (TextFile s) \<Rightarrow> (Inr s, w'))"

definition write_text :: "string \<Rightarrow> string \<Rightarrow> unit io" where
  "write_text p s w =
     (let w' = w\<lparr>trace := trace w @ [OpenedWrite p]\<rparr> in
      case files w p of
        Some Blocked \<Rightarrow> (Inl OSError, w')
      | _ \<Rightarrow> (Inr (), w'\<lparr>files := (files w)(p \<mapsto> TextFile s)\<rparr>))"

text \<open>\<open>try: body except Exception: handler\<close>.\<close>

definition try_except :: "'a io \<Rightarrow> (exn \<Rightarrow> 'a io) \<Rightarrow> 'a io" where
  "try_except body handler w =
     (case body w of (Inl x, w') \<Rightarrow> handler x w' | (Inr v, w') \<Rightarrow> (Inr v, w'))"

section \<open>process_downloaded_areas.py\<close>

record area =
  area_name :: string
  osm_file :: string

definition AREAS :: "area list" where
  "AREAS =
     [\<lparr>area_name = ''Indiranagar'', osm_file = ''indiranagar.osm''\<rparr>,
      \<lparr>area_name = ''Whitefield'', osm_file = ''whitefield.osm''\<rparr>,
      \<lparr>area_name = ''Koramangala'', osm_file = ''koramangala.osm''\<rparr>,
      \<lparr>area_name = ''MG_Road'', osm_file = ''mg_road.osm''\<rparr>,
      \<lparr>area_name = ''Jayanagar'', osm_file = ''jayanagar.osm''\<rparr>,
      \<lparr>area_name = ''Hebbal'', osm_file = ''hebbal.osm''\<rparr>,
      \<lparr>area_name = ''Yeshwanthpur'', osm_file = ''yeshwanthpur.osm''\<rparr>]"

record traffic_config =
  cfg_begin :: int
  cfg_end :: int
  cfg_vehicles :: int
  cfg_period :: int
  cfg_trip_attributes :: string
  cfg_vehicle_class :: string
  cfg_fringe_factor :: int

definition TRAFFIC_CONFIG :: traffic_config where
  "TRAFFIC_CONFIG =
     \<lparr>cfg_begin = 0, cfg_end = 1000, cfg_vehicles = 100, cfg_period = 10,
      cfg_trip_attributes = ''departLane=\"best\" departSpeed=\"max\"'',
      cfg_vehicle_class = ''passenger'', cfg_fringe_factor = 10\<rparr>"

definition netconvert_cmd :: "string \<Rightarrow> string \<Rightarrow> string list" where
  "netconvert_cmd osm net_file =
     [''netconvert'', ''--osm-files'', osm, ''--output-file'', net_file,
      ''--geometry.remove'', ''--ramps.guess'', ''--junctions.join'',
      ''--tls.guess-signals'', ''--tls.discard-simple'', ''--tls.join'',
      ''--remove-edges.isolated'', ''--keep-edges.by-vclass'', ''passenger'']"

definition convert_to_sumo :: "env \<Rightarrow> string \<Rightarrow> string \<Rightarrow> string option io" where
  "convert_to_sumo e osm nm =
     (let net_file = lower nm @ ''.net.xml'' in
      try_except
        (\<lambda>w. case subprocess_run e (netconvert_cmd osm net_file) 300 w of
                (Inl x, w1) \<Rightarrow> (Inl x, w1)
              | (Inr result, w1) \<Rightarrow>
                  if returncode result = 0 \<and> path_exists net_file w1
                  then (Inr (Some net_file), w1)
                  else (Inr None, w1))
        (\<lambda>x w. (Inr None, w)))"

definition randomtrips_cmd :: "string \<Rightarrow> string \<Rightarrow> string \<Rightarrow> string list" where
  "randomtrips_cmd randomtrips net_file trips_file =
     [''python3'', randomtrips, ''-n'', net_file, ''-o'', trips_file,
      ''-b'', str_int (cfg_begin TRAFFIC_CONFIG),
      ''-e'', str_int (cfg_end TRAFFIC_CONFIG),
      ''-p'', str_int (cfg_period TRAFFIC_CONFIG),
      ''--fringe-factor'', str_int (cfg_fringe_factor TRAFFIC_CONFIG),
      ''--trip-attributes'', cfg_trip_attributes TRAFFIC_CONFIG,
      ''--vehicle-class'', cfg_vehicle_class TRAFFIC_CONFIG]"

definition duarouter_cmd :: "string \<Rightarrow> string \<Rightarrow> string \<Rightarrow> string list" where
  "duarouter_cmd net_file trips_file route_file =
     [''duarouter'', ''-n'', net_file, ''-t'', trips_file, ''-o'', route_file,
      ''--ignore-errors'', ''--no-warnings'']"

text \<open>
  \<open>os.path.join(os.environ.get('SUMO_HOME', '/usr/local/share/sumo'), 'tools',
  'randomTrips.py')\<close>.
\<close>

definition randomtrips_script :: "env \<Rightarrow> string" where
  "randomtrips_script e =
     (let sumo_home = (case SUMO_HOME e of None \<Rightarrow> ''/usr/local/share/sumo'' | Some h \<Rightarrow> h)
      in path_join (path_join sumo_home ''tools'') ''randomTrips.py'')"

definition generate_traffic :: "env \<Rightarrow> string \<Rightarrow> string \<Rightarrow> string option io" where
  "generate_traffic e net_file nm =
     (let trips_file = lower nm @ ''.trips.xml'';
          route_file = lower nm @ ''.rou.xml'' in
      try_except
        (\<lambda>w.
           let randomtrips = randomtrips_script e
           in case subprocess_run e (randomtrips_cmd randomtrips net_file trips_file) 120 w of
                (Inl x, w1) \<Rightarrow> (Inl x, w1)
              | (Inr result, w1) \<Rightarrow>
                  if returncode result \<noteq> 0 then (Inr None, w1)
                  else
                    (case subprocess_run e (duarouter_cmd net_file trips_file route_file) 120 w1 of
                       (Inl x, w2) \<Rightarrow> (Inl x, w2)
                     | (Inr result2, w2) \<Rightarrow>
                         if returncode result2 = 0 \<and> path_exists route_file w2
                         then (Inr (Some route_file), w2)
                         else (Inr None, w2)))
        (\<lambda>x w. (Inr None, w)))"

definition additional_text :: string where
  "additional_text =
     ''<?xml version=\"1.0\" encoding=\"UTF-8\"?>\<newline>'' @
     ''<additional xmlns:xsi=\"http://www.w3.org/2001/XMLSchema-instance\" '' @
     ''xsi:noNamespaceSchemaLocation=\"http://sumo.dlr.de/xsd/additional_file.xsd\">\<newline>'' @
     ''</additional>\<newline>''"

definition config_text :: "string \<Rightarrow> string \<Rightarrow> string \<Rightarrow> string" where
  "config_text net_file route_file add_file =
     ''<?xml version=\"1.0\" encoding=\"UTF-8\"?>\<newline>'' @
     ''<configuration xmlns:xsi=\"http://www.w3.org/2001/XMLSchema-instance\" xsi:noNamespaceSchemaLocation=\"http://sumo.dlr.de/xsd/sumoConfiguration.xsd\">\<newline>'' @
     ''    <input>\<newline>'' @
     ''        <net-file value=\"'' @ net_file @ ''\"/>\<newline>'' @
     ''        <route-files value=\"'' @ route_file @ ''\"/>\<newline>'' @
     ''        <additional-files value=\"'' @ add_file @ ''\"/>\<newline>'' @
     ''    </input>\<newline>'' @
     ''    <time>\<newline>'' @
     ''        <begin value=\"'' @ str_int (cfg_begin TRAFFIC_CONFIG) @ ''\"/>\<newline>'' @
     ''        <end value=\"'' @ str_int (cfg_end TRAFFIC_CONFIG) @ ''\"/>\<newline>'' @
     ''    </time>\<newline>'' @
     ''    <processing>\<newline>'' @
     ''        <time-to-teleport value=\"300\"/>\<newline>'' @
     ''    </processing>\<newline>'' @
     ''</configuration>\<newline>''"

definition create_config :: "string \<Rightarrow> string \<Rightarrow> string \<Rightarrow> string option io" where
  "create_config net_file route_file nm =
     (let config_file = lower nm @ ''.sumocfg'';
          add_file = lower nm @ ''.add.xml'' in
      try_except
        (\<lambda>w. case write_text add_file additional_text w of
                (Inl x, w1) \<Rightarrow> (Inl x, w1)
              | (Inr u, w1) \<Rightarrow>
                  (case write_text config_file (config_text net_file route_file add_file) w1 of
                     (Inl x, w2) \<Rightarrow> (Inl x, w2)
                   | (Inr u2, w2) \<Rightarrow> (Inr (Some config_file), w2)))
        (\<lambda>x w. (Inr None, w)))"

text \<open>The bare \<open>except:\<close> of \<open>get_network_stats\<close> turns any failure into \<open>(0, 0)\<close>.\<close>

definition get_network_stats :: "string \<Rightarrow> (int \<times> int) io" where
  "get_network_stats net_file =
     try_except
       (\<lambda>w. case read_text net_file w of
               (Inl x, w1) \<Rightarrow> (Inl x, w1)
             | (Inr content, w1) \<Rightarrow>
                 (Inr (int (count_str content ''<junction''), int (count_str content ''<edge'')), w1))
       (\<lambda>x w. (Inr (0, 0), w))"

record area_result =
  name :: string
  status :: string
  junctions :: int
  edges :: int
  vehicles :: int

text \<open>
  The body of the \<open>try\<close> block of \<open>process_area\<close>. It works on the mutable dictionary
  \<open>area_result\<close>; an exception leaves the block with the dictionary as it is at that
  moment (\<open>Inl\<close>), a \<open>return\<close> or the end of the block with the final one (\<open>Inr\<close>).
\<close>

definition process_area_try ::
  "env \<Rightarrow> area \<Rightarrow> area_result \<Rightarrow> world \<Rightarrow> (exn \<times> area_result + area_result) \<times> world" where
  "process_area_try e a area_result w =
     (case convert_to_sumo e (osm_file a) (area_name a) w of
        (Inl x, w1) \<Rightarrow> (Inl (x, area_result), w1)
      | (Inr net_file, w1) \<Rightarrow>
          if \<not> truthy net_file then (Inr area_result, w1)
          else
            (case get_network_stats (the net_file) w1 of
               (Inl x, w2) \<Rightarrow> (Inl (x, area_result), w2)
             | (Inr (js, es), w2) \<Rightarrow>
                 let area_result = area_result\<lparr>junctions := js, edges := es\<rparr> in
                 (case generate_traffic e (the net_file) (area_name a) w2 of
                    (Inl x, w3) \<Rightarrow> (Inl (x, area_result), w3)
                  | (Inr route_file, w3) \<Rightarrow>
                      if \<not> truthy route_file then (Inr area_result, w3)
                      else
                        (case create_config (the net_file) (the route_file) (area_name a) w3 of
                           (Inl x, w4) \<Rightarrow> (Inl (x, area_result), w4)
                         | (Inr config_file, w4) \<Rightarrow>
                             if \<not> truthy config_file then (Inr area_result, w4)
                             else (Inr (area_result\<lparr>status := ''Success''\<rparr>), w4)))))"

definition process_area :: "env \<Rightarrow> area \<Rightarrow> area_result io" where
  "process_area e a w =
     (let area_result =
            \<lparr>name = area_name a, status = ''Failed'', junctions = 0, edges = 0, vehicles = 100\<rparr>
      in if \<not> path_exists (osm_file a) w then (Inr area_result, w)
         else
           (case process_area_try e a area_result w of
              (Inl (x, area_result'), w') \<Rightarrow> (Inr area_result', w')
            | (Inr area_result', w') \<Rightarrow> (Inr area_result', w')))"

section \<open>The final report\<close>

definition rule80 :: string where
  "rule80 = replicate 80 (CHR ''='')"

definition check_mark :: string where
  "check_mark = [CHR 0xE2, CHR 0x9C, CHR 0x93]"

definition party_popper :: string where
  "party_popper = [CHR 0xF0, CHR 0x9F, CHR 0x8E, CHR 0x89]"

text \<open>
  The two readings of the clock that the report prints:
  \<open>datetime.now().strftime('%Y-%m-%d %H:%M:%S')\<close> and \<open>datetime.now() - start_time\<close>,
  both as the text written.
\<close>

record clock =
  completion_date :: string
  processing_time :: string

text \<open>Everything written before the loop over \<open>results\<close>.\<close>

definition report_head :: "clock \<Rightarrow> string" where
  "report_head c =
     rule80 @ ''\<newline>'' @
     ''DIGITAL TWIN IMPLEMENTATION - FINAL REPORT\<newline>'' @
     ''ALL 8 BANGALORE AREAS COMPLETED\<newline>'' @
     rule80 @ ''\<newline>\<newline>'' @
     ''Completion Date: '' @ completion_date c @ ''\<newline>'' @
     ''Processing Time: '' @ processing_time c @ ''\<newline>\<newline>'' @
     rule80 @ ''\<newline>'' @
     ''COMPLETED AREAS\<newline>'' @
     rule80 @ ''\<newline>\<newline>'' @
     ''1. Electronic City\<newline>'' @
     ''   Status: Completed '' @ check_mark @ ''\<newline>'' @
     ''   Junctions: 94\<newline>'' @
     ''   Road Segments: 198\<newline>'' @
     ''   Vehicles: 100\<newline>'' @
     ''   Config: electronic_city.sumocfg\<newline>\<newline>''"

text \<open>
  The state of the loop: the text written so far and the three counters
  \<open>successful\<close>, \<open>total_junctions\<close> and \<open>total_edges\<close>.
\<close>

record report_state =
  written :: string
  successful :: int
  total_junctions :: int
  total_edges :: int

definition report_step :: "int \<Rightarrow> area_result \<Rightarrow> report_state \<Rightarrow> report_state" where
  "report_step i result st =
     (let st1 = st\<lparr>written := written st @ str_int i @ ''. '' @ name result @ ''\<newline>'' @
                                ''   Status: '' @ status result @ ''\<newline>''\<rparr>;
          st2 = (if status result = ''Success''
                 then st1\<lparr>successful := successful st1 + 1,
                          total_junctions := total_junctions st1 + junctions result,
                          total_edges := total_edges st1 + edges result,
                          written := written st1 @
                            ''   Junctions: '' @ str_int (junctions result) @ ''\<newline>'' @
                            ''   Road Segments: '' @ str_int (edges result) @ ''\<newline>'' @
                            ''   Vehicles: '' @ str_int (vehicles result) @ ''\<newline>'' @
                            ''   Config: '' @ lower (name result) @ ''.sumocfg\<newline>''\<rparr>
                 else st1)
      in st2\<lparr>written := written st2 @ ''\<newline>''\<rparr>)"

text \<open>\<open>for i, result in enumerate(results, i0)\<close>.\<close>

fun report_loop :: "int \<Rightarrow> area_result list \<Rightarrow> report_state \<Rightarrow> report_state" where
  "report_loop i [] st = st"
| "report_loop i (result # rest) st = report_loop (i + 1) rest (report_step i result st)"

text \<open>The four numbers of the section OVERALL STATISTICS, as the code computes them.\<close>

record totals =
  areasCompleted :: int
  totalJunctions :: int
  totalEdges :: int
  totalVehicles :: int

definition report_totals :: "report_state \<Rightarrow> totals" where
  "report_totals st =
     \<lparr>areasCompleted = successful st + 1,
      totalJunctions = total_junctions st,
      totalEdges = total_edges st,
      totalVehicles = (successful st + 1) * 100\<rparr>"

definition statistics_text :: "totals \<Rightarrow> string" where
  "statistics_text t =
     rule80 @ ''\<newline>'' @
     ''OVERALL STATISTICS\<newline>'' @
     rule80 @ ''\<newline>\<newline>'' @
     ''Total Areas Completed: '' @ str_int (areasCompleted t) @ ''/8\<newline>'' @
     ''Total Junctions: '' @ str_int (totalJunctions t) @ ''\<newline>'' @
     ''Total Road Segments: '' @ str_int (totalEdges t) @ ''\<newline>'' @
     ''Total Vehicles: '' @ str_int (totalVehicles t) @ ''\<newline>\<newline>''"

fun run_lines :: "area_result list \<Rightarrow> string" where
  "run_lines [] = []"
| "run_lines (result # rest) =
     (if status result = ''Success''
      then name result @ '': sumo-gui -c '' @ lower (name result) @ ''.sumocfg\<newline>''
      else []) @ run_lines rest"

definition report_tail :: "area_result list \<Rightarrow> string" where
  "report_tail results =
     rule80 @ ''\<newline>'' @
     ''HOW TO RUN SIMULATIONS\<newline>'' @
     rule80 @ ''\<newline>\<newline>'' @
     ''Electronic City: sumo-gui -c electronic_city.sumocfg\<newline>'' @
     run_lines results @
     ''\<newline>'' @ rule80 @ ''\<newline>'' @
     ''PROJECT COMPLETE! '' @ party_popper @ ''\<newline>'' @
     rule80 @ ''\<newline>''"

definition final_state :: "area_result list \<Rightarrow> clock \<Rightarrow> report_state" where
  "final_state results c =
     report_loop 2 results
       \<lparr>written = report_head c, successful = 0, total_junctions = 94, total_edges = 198\<rparr>"

definition final_totals :: "area_result list \<Rightarrow> clock \<Rightarrow> totals" where
  "final_totals results c = report_totals (final_state results c)"

text \<open>The whole text that \<open>generate_final_report\<close> writes.\<close>

definition final_report_text :: "area_result list \<Rightarrow> clock \<Rightarrow> string" where
  "final_report_text results c =
     written (final_state results c) @ statistics_text (final_totals results c) @
     report_tail results"

definition generate_final_report :: "area_result list \<Rightarrow> clock \<Rightarrow> string io" where
  "generate_final_report results c w =
     (let report_file = ''ALL_AREAS_COMPLETE_REPORT.txt'' in
      case write_text report_file (final_report_text results c) w of
        (Inl x, w1) \<Rightarrow> (Inl x, w1)
      | (Inr u, w1) \<Rightarrow> (Inr report_file, w1))"

section \<open>The batch command\<close>

text \<open>
  The loop of \<open>main\<close> over the areas, appending each result to the module's list
  \<open>results\<close>.
\<close>

fun process_all :: "env \<Rightarrow> area list \<Rightarrow> area_result list \<Rightarrow> area_result list io" where
  "process_all e [] results w = (Inr results, w)"
| "process_all e (a # rest) results w =
     (case process_area e a w of
        (Inl x, w1) \<Rightarrow> (Inl x, w1)
      | (Inr result, w1) \<Rightarrow> process_all e rest (results @ [result]) w1)"

definition count_success :: "area_result list \<Rightarrow> int" where
  "count_success results = int (length (filter (\<lambda>r. status r = ''Success'') results))"

definition main :: "env \<Rightarrow> clock \<Rightarrow> int io" where
  "main e c w =
     (case process_all e AREAS [] w of
        (Inl x, w1) \<Rightarrow> (Inl x, w1)
      | (Inr results, w1) \<Rightarrow>
          (case generate_final_report results c w1 of
             (Inl x, w2) \<Rightarrow> (Inl x, w2)
           | (Inr report, w2) \<Rightarrow>
               let successful = count_success results
               in (Inr (if successful = 7 then 0 else 1), w2)))"

text \<open>
  \<open>exit(main())\<close>: the value returned is the exit code; an exception that leaves
  \<open>main\<close> ends the interpreter with code 1.
\<close>

fun exit_code :: "(exn + int) \<Rightarrow> int" where
  "exit_code (Inl x) = 1"
| "exit_code (Inr n) = n"

section \<open>The tests the code makes on a tool call\<close>

text \<open>
  \<open>result.returncode == 0 and os.path.exists(out)\<close>, false when the call raised: the
  test of \<open>convert_to_sumo\<close> and of the route step of \<open>generate_traffic\<close>.
\<close>

fun produced :: "(exn + completed_process) \<Rightarrow> fs \<Rightarrow> string \<Rightarrow> bool" where
  "produced (Inl x) f p = False"
| "produced (Inr cp) f p = (returncode cp = 0 \<and> f p \<noteq> None)"

text \<open>
  \<open>result.returncode == 0\<close>, false when the call raised: the test of the trip step
  of \<open>generate_traffic\<close>.
\<close>

fun exited_zero :: "(exn + completed_process) \<Rightarrow> bool" where
  "exited_zero (Inl x) = False"
| "exited_zero (Inr cp) = (returncode cp = 0)"

text \<open>What \<open>get_network_stats\<close> returns for a path in a given file system.\<close>

definition net_stats :: "fs \<Rightarrow> string \<Rightarrow> int \<times> int" where
  "net_stats f p =
     (case f p of
        Some (TextFile s) \<Rightarrow> (int (count_str s ''<junction''), int (count_str s ''<edge''))
      | _ \<Rightarrow> (0, 0))"

text \<open>
  The files an area's run names, the three command lines it builds, and what the three
  tool calls return, each started in the file system the call before it left.
\<close>

definition net_file_of :: "area \<Rightarrow> string" where
  "net_file_of a = lower (area_name a) @ ''.net.xml''"

definition trips_file_of :: "area \<Rightarrow> string" where
  "trips_file_of a = lower (area_name a) @ ''.trips.xml''"

definition route_file_of :: "area \<Rightarrow> string" where
  "route_file_of a = lower (area_name a) @ ''.rou.xml''"

definition add_file_of :: "area \<Rightarrow> string" where
  "add_file_of a = lower (area_name a) @ ''.add.xml''"

definition config_file_of :: "area \<Rightarrow> string" where
  "config_file_of a = lower (area_name a) @ ''.sumocfg''"

definition convert_call :: "area \<Rightarrow> string list" where
  "convert_call a = netconvert_cmd (osm_file a) (net_file_of a)"

definition trips_call :: "env \<Rightarrow> area \<Rightarrow> string list" where
  "trips_call e a = randomtrips_cmd (randomtrips_script e) (net_file_of a) (trips_file_of a)"

definition routes_call :: "area \<Rightarrow> string list" where
  "routes_call a = duarouter_cmd (net_file_of a) (trips_file_of a) (route_file_of a)"

definition after_convert :: "env \<Rightarrow> area \<Rightarrow> world \<Rightarrow> (exn + completed_process) \<times> fs" where
  "after_convert e a w = tool e (convert_call a) 300 (files w)"

definition after_trips :: "env \<Rightarrow> area \<Rightarrow> world \<Rightarrow> (exn + completed_process) \<times> fs" where
  "after_trips e a w = tool e (trips_call e a) 120 (snd (after_convert e a w))"

definition after_routes :: "env \<Rightarrow> area \<Rightarrow> world \<Rightarrow> (exn + completed_process) \<times> fs" where
  "after_routes e a w = tool e (routes_call a) 120 (snd (after_trips e a w))"

text \<open>
  The outcome of each stage: the converter, the trip synthesizer and the route computer
  each exited with 0 and left their output file; the trip synthesizer exited with 0
  (all that the code tests of it); both files of the configuration step can be written.
\<close>

definition convert_ok :: "env \<Rightarrow> area \<Rightarrow> world \<Rightarrow> bool" where
  "convert_ok e a w =
     produced (fst (after_convert e a w)) (snd (after_convert e a w)) (net_file_of a)"

definition trips_exit_ok :: "env \<Rightarrow> area \<Rightarrow> world \<Rightarrow> bool" where
  "trips_exit_ok e a w = exited_zero (fst (after_trips e a w))"

definition trips_ok :: "env \<Rightarrow> area \<Rightarrow> world \<Rightarrow> bool" where
  "trips_ok e a w =
     produced (fst (after_trips e a w)) (snd (after_trips e a w)) (trips_file_of a)"

definition routes_ok :: "env \<Rightarrow> area \<Rightarrow> world \<Rightarrow> bool" where
  "routes_ok e a w =
     produced (fst (after_routes e a w)) (snd (after_routes e a w)) (route_file_of a)"

definition config_ok :: "env \<Rightarrow> area \<Rightarrow> world \<Rightarrow> bool" where
  "config_ok e a w =
     (snd (after_routes e a w) (add_file_of a) \<noteq> Some Blocked \<and>
      snd (after_routes e a w) (config_file_of a) \<noteq> Some Blocked)"

text \<open>What the Measure step reads off the network file the converter left.\<close>

definition measured :: "env \<Rightarrow> area \<Rightarrow> world \<Rightarrow> int \<times> int" where
  "measured e a w = net_stats (snd (after_convert e a w)) (net_file_of a)"

text \<open>The result a run starts from, and the one it returns once the network is measured.\<close>

definition initial_result :: "area \<Rightarrow> area_result" where
  "initial_result a =
     \<lparr>name = area_name a, status = ''Failed'', junctions = 0, edges = 0, vehicles = 100\<rparr>"

definition measured_result :: "env \<Rightarrow> area \<Rightarrow> world \<Rightarrow> area_result" where
  "measured_result e a w =
     \<lparr>name = area_name a, status = ''Failed'', junctions = fst (measured e a w),
      edges = snd (measured e a w), vehicles = 100\<rparr>"

text \<open>The events a run of \<open>process_area\<close> adds to the trace, and its result.\<close>

definition run_events :: "env \<Rightarrow> area \<Rightarrow> world \<Rightarrow> event list" where
  "run_events e a w = drop (length (trace w)) (trace (snd (process_area e a w)))"

definition run_result :: "env \<Rightarrow> area \<Rightarrow> world \<Rightarrow> exn + area_result" where
  "run_result e a w = fst (process_area e a w)"

section \<open>Stubbed tools and sample worlds\<close>

text \<open>
  A stub for the three external tools, used to run the pipeline on concrete inputs.
  The output file is read off the command line at the place where the scripts put it.
  Each tool is given one behaviour: it writes its output file and exits with 0, leaves
  an output that cannot be read as text and exits with 0, exits with 0 without writing
  anything, exits with a given code, or raises.
\<close>

datatype behaviour = Produces string | ProducesUnreadable | ExitsSilently | Fails int | Raises exn

text \<open>The argument at a position of a command line, empty when the line is shorter.\<close>

definition arg_at :: "nat \<Rightarrow> string list \<Rightarrow> string" where
  "arg_at i cmd = (if i < length cmd then cmd ! i else [])"

fun act :: "behaviour \<Rightarrow> string \<Rightarrow> fs \<Rightarrow> (exn + completed_process) \<times> fs" where
  "act (Produces s) out fs = (Inr \<lparr>returncode = 0, stderr = []\<rparr>, fs(out \<mapsto> TextFile s))"
| "act ProducesUnreadable out fs = (Inr \<lparr>returncode = 0, stderr = []\<rparr>, fs(out \<mapsto> Blocked))"
| "act ExitsSilently out fs = (Inr \<lparr>returncode = 0, stderr = []\<rparr>, fs)"
| "act (Fails rc) out fs = (Inr \<lparr>returncode = rc, stderr = ''error''\<rparr>, fs)"
| "act (Raises x) out fs = (Inl x, fs)"

definition stub_tool ::
  "behaviour \<Rightarrow> behaviour \<Rightarrow> behaviour \<Rightarrow>
     string list \<Rightarrow> nat \<Rightarrow> fs \<Rightarrow> (exn + completed_process) \<times> fs" where
  "stub_tool netconvert randomtrips duarouter cmd timeout fs =
     (if cmd = [] then (Inl FileNotFoundError, fs)
      else if hd cmd = ''netconvert'' then act netconvert (arg_at 4 cmd) fs
      else if hd cmd = ''python3'' then act randomtrips (arg_at 5 cmd) fs
      else if hd cmd = ''duarouter'' then act duarouter (arg_at 6 cmd) fs
      else (Inl FileNotFoundError, fs))"

definition stub_env :: "behaviour \<Rightarrow> behaviour \<Rightarrow> behaviour \<Rightarrow> env" where
  "stub_env netconvert randomtrips duarouter =
     \<lparr>SUMO_HOME = None, tool = stub_tool netconvert randomtrips duarouter\<rparr>"

definition sample_net :: string where
  "sample_net = ''<net><junction id=\"a\"/><junction id=\"b\"/><edge id=\"e\"/></net>''"

definition world_of :: "(string \<times> node) list \<Rightarrow> world" where
  "world_of fl = \<lparr>files = map_of fl, trace = []\<rparr>"

definition hebbal :: area where
  "hebbal = \<lparr>area_name = ''Hebbal'', osm_file = ''hebbal.osm''\<rparr>"

definition source_only :: world where
  "source_only = world_of [(''hebbal.osm'', TextFile ''<osm/>'')]"

definition all_tools_work :: env where
  "all_tools_work =
     stub_env (Produces sample_net) (Produces ''<trips/>'') (Produces ''<routes/>'')"

definition netconvert_missing :: env where
  "netconvert_missing =
     stub_env (Raises FileNotFoundError) (Produces ''<trips/>'') (Produces ''<routes/>'')"

definition netconvert_times_out :: env where
  "netconvert_times_out =
     stub_env (Raises TimeoutExpired) (Produces ''<trips/>'') (Produces ''<routes/>'')"

definition trips_fail :: env where
  "trips_fail = stub_env (Produces sample_net) (Fails 1) (Produces ''<routes/>'')"

definition routes_fail :: env where
  "routes_fail = stub_env (Produces sample_net) (Produces ''<trips/>'') (Fails 1)"

definition trips_silent :: env where
  "trips_silent = stub_env (Produces sample_net) ExitsSilently (Produces ''<routes/>'')"

definition silent_then_routes_fail :: env where
  "silent_then_routes_fail = stub_env (Produces sample_net) ExitsSilently (Fails 1)"

definition routes_silent :: env where
  "routes_silent = stub_env (Produces sample_net) (Produces ''<trips/>'') ExitsSilently"

definition netconvert_silent :: env where
  "netconvert_silent = stub_env ExitsSilently (Produces ''<trips/>'') (Produces ''<routes/>'')"

definition net_unreadable :: env where
  "net_unreadable =
     stub_env ProducesUnreadable (Produces ''<trips/>'') (Produces ''<routes/>'')"

definition electronic_city :: area_result where
  "electronic_city =
     \<lparr>name = ''Electronic City'', status = ''Completed'', junctions = 94, edges = 198,
      vehicles = 100\<rparr>"

text \<open>
  The aggregation in the words of the specification: the baseline entry is added
  unconditionally, and every total is a sum over the results whose status is Success.
\<close>

definition spec_aggregate :: "area_result \<Rightarrow> area_result list \<Rightarrow> totals" where
  "spec_aggregate baseline results =
     (let ok = filter (\<lambda>r. status r = ''Success'') results in
      \<lparr>areasCompleted = 1 + int (length ok),
       totalJunctions = junctions baseline + sum_list (map junctions ok),
       totalEdges = edges baseline + sum_list (map edges ok),
       totalVehicles = vehicles baseline + sum_list (map vehicles ok)\<rparr>)"

text \<open>A loop state with nothing written and all counters at zero.\<close>

definition blank_state :: report_state where
  "blank_state = \<lparr>written = [], successful = 0, total_junctions = 0, total_edges = 0\<rparr>"

definition area_a :: area_result where
  "area_a = \<lparr>name = ''Area A'', status = ''Success'', junctions = 85, edges = 180, vehicles = 100\<rparr>"

definition area_b :: area_result where
  "area_b = \<lparr>name = ''Area B'', status = ''Failed'', junctions = 70, edges = 150, vehicles = 100\<rparr>"

text \<open>
  The text of the final report around the two clock readings: what comes before the
  completion date, what stands between it and the processing time, and what follows.
\<close>

definition text_before_date :: string where
  "text_before_date =
     rule80 @ ''\<newline>'' @
     ''DIGITAL TWIN IMPLEMENTATION - FINAL REPORT\<newline>'' @
     ''ALL 8 BANGALORE AREAS COMPLETED\<newline>'' @
     rule80 @ ''\<newline>\<newline>'' @
     ''Completion Date: ''"

definition text_between :: string where
  "text_between = ''\<newline>'' @ ''Processing Time: ''"

definition text_after_time :: "area_result list \<Rightarrow> string" where
  "text_after_time results =
     ''\<newline>\<newline>'' @
     rule80 @ ''\<newline>'' @
     ''COMPLETED AREAS\<newline>'' @
     rule80 @ ''\<newline>\<newline>'' @
     ''1. Electronic City\<newline>'' @
     ''   Status: Completed '' @ check_mark @ ''\<newline>'' @
     ''   Junctions: 94\<newline>'' @
     ''   Road Segments: 198\<newline>'' @
     ''   Vehicles: 100\<newline>'' @
     ''   Config: electronic_city.sumocfg\<newline>\<newline>'' @
     written (report_loop 2 results blank_state) @
     statistics_text (final_totals results \<lparr>completion_date = [], processing_time = []\<rparr>) @
     report_tail results"

definition report_file :: string where
  "report_file = ''ALL_AREAS_COMPLETE_REPORT.txt''"

definition seven_worlds :: world where
  "seven_worlds = world_of (map (\<lambda>a. (osm_file a, TextFile ''<osm/>'')) AREAS)"

definition report_blocked :: world where
  "report_blocked =
     world_of ((report_file, Blocked) # map (\<lambda>a. (osm_file a, TextFile ''<osm/>'')) AREAS)"

text \<open>
  A world in which the batch can run to the end: every source file is there, and no
  configuration file of an area is blocked.
\<close>

definition ready :: "world \<Rightarrow> bool" where
  "ready w =
     list_all (\<lambda>a. files w (osm_file a) \<noteq> None \<and>
                     files w (add_file_of a) \<noteq> Some Blocked \<and>
                     files w (config_file_of a) \<noteq> Some Blocked) AREAS"

definition all_succeeded :: "(exn + area_result list) \<Rightarrow> bool" where
  "all_succeeded x =
     (case x of Inl e \<Rightarrow> False | Inr results \<Rightarrow> list_all (\<lambda>r. status r = ''Success'') results)"

definition seven_sources :: "(string \<times> node) list" where
  "seven_sources = map (\<lambda>a. (osm_file a, TextFile ''<osm/>'')) AREAS"

definition sample_clock :: clock where
  "sample_clock =
     \<lparr>completion_date = ''2025-01-01 10:00:00'', processing_time = ''0:00:42.000001''\<rparr>"

section \<open>What each step does to the world\<close>

text \<open>
  Each function of the pipeline, written out as the calls it makes to the tools and the
  file system and the events it leaves in the trace.
\<close>

lemma convert_to_sumo_run:
  "convert_to_sumo e osm nm w =
     (let net = lower nm @ ''.net.xml''; c = netconvert_cmd osm net in
      case tool e c 300 (files w) of (r, f1) \<Rightarrow>
        (Inr (if produced r f1 net then Some net else None),
         w\<lparr>files := f1, trace := trace w @ [Ran c]\<rparr>))"
  by (auto simp: convert_to_sumo_def try_except_def subprocess_run_def path_exists_def Let_def
      split: prod.splits sum.splits)

lemma generate_traffic_run:
  "generate_traffic e net nm w =
     (let trips = lower nm @ ''.trips.xml''; route = lower nm @ ''.rou.xml'';
          c2 = randomtrips_cmd (randomtrips_script e) net trips;
          c3 = duarouter_cmd net trips route in
      case tool e c2 120 (files w) of (r2, f2) \<Rightarrow>
        if \<not> exited_zero r2 then (Inr None, w\<lparr>files := f2, trace := trace w @ [Ran c2]\<rparr>)
        else
          (case tool e c3 120 f2 of (r3, f3) \<Rightarrow>
             (Inr (if produced r3 f3 route then Some route else None),
              w\<lparr>files := f3, trace := trace w @ [Ran c2, Ran c3]\<rparr>)))"
  by (auto simp: generate_traffic_def try_except_def subprocess_run_def path_exists_def Let_def
      split: prod.splits sum.splits)

lemma write_text_run:
  "write_text p s w =
     (if files w p = Some Blocked then (Inl OSError, w\<lparr>trace := trace w @ [OpenedWrite p]\<rparr>)
      else (Inr (), w\<lparr>files := (files w)(p \<mapsto> TextFile s),
                      trace := trace w @ [OpenedWrite p]\<rparr>))"
  by (simp add: write_text_def Let_def split: option.splits node.splits)

lemma create_config_run:
  "create_config net route nm w =
     (let cfg = lower nm @ ''.sumocfg''; add = lower nm @ ''.add.xml'' in
      if files w add = Some Blocked
      then (Inr None, w\<lparr>trace := trace w @ [OpenedWrite add]\<rparr>)
      else if files w cfg = Some Blocked
      then (Inr None, w\<lparr>files := (files w)(add \<mapsto> TextFile additional_text),
                        trace := trace w @ [OpenedWrite add, OpenedWrite cfg]\<rparr>)
      else (Inr (Some cfg),
            w\<lparr>files := (files w)(add \<mapsto> TextFile additional_text,
                                   cfg \<mapsto> TextFile (config_text net route add)),
              trace := trace w @ [OpenedWrite add, OpenedWrite cfg]\<rparr>))"
  unfolding create_config_def try_except_def write_text_run
  by (simp add: Let_def)

lemma get_network_stats_run:
  "get_network_stats net w =
     (Inr (net_stats (files w) net), w\<lparr>trace := trace w @ [OpenedRead net]\<rparr>)"
  by (simp add: get_network_stats_def try_except_def read_text_def Let_def net_stats_def
      split: prod.splits sum.splits option.splits node.splits)

lemma process_area_run:
  "process_area e a w =
     (let nm = area_name a;
          net = lower nm @ ''.net.xml''; trips = lower nm @ ''.trips.xml'';
          route = lower nm @ ''.rou.xml''; cfg = lower nm @ ''.sumocfg'';
          add = lower nm @ ''.add.xml'';
          c1 = netconvert_cmd (osm_file a) net;
          c2 = randomtrips_cmd (randomtrips_script e) net trips;
          c3 = duarouter_cmd net trips route;
          r0 = \<lparr>name = nm, status = ''Failed'', junctions = 0, edges = 0, vehicles = 100\<rparr>
      in if files w (osm_file a) = None then (Inr r0, w)
         else
           case tool e c1 300 (files w) of (r1, f1) \<Rightarrow>
           if \<not> produced r1 f1 net
           then (Inr r0, w\<lparr>files := f1, trace := trace w @ [Ran c1]\<rparr>)
           else
             let rm = r0\<lparr>junctions := fst (net_stats f1 net), edges := snd (net_stats f1 net)\<rparr> in
             case tool e c2 120 f1 of (r2, f2) \<Rightarrow>
             if \<not> exited_zero r2
             then (Inr rm, w\<lparr>files := f2, trace := trace w @ [Ran c1, OpenedRead net, Ran c2]\<rparr>)
             else
               case tool e c3 120 f2 of (r3, f3) \<Rightarrow>
               if \<not> produced r3 f3 route
               then (Inr rm, w\<lparr>files := f3,
                                trace := trace w @ [Ran c1, OpenedRead net, Ran c2, Ran c3]\<rparr>)
               else if f3 add = Some Blocked
               then (Inr rm, w\<lparr>files := f3,
                                trace := trace w @
                                  [Ran c1, OpenedRead net, Ran c2, Ran c3, OpenedWrite add]\<rparr>)
               else if f3 cfg = Some Blocked
               then (Inr rm, w\<lparr>files := f3(add \<mapsto> TextFile additional_text),
                                trace := trace w @
                                  [Ran c1, OpenedRead net, Ran c2, Ran c3, OpenedWrite add,
                                   OpenedWrite cfg]\<rparr>)
               else (Inr (rm\<lparr>status := ''Success''\<rparr>),
                     w\<lparr>files := f3(add \<mapsto> TextFile additional_text,
                                     cfg \<mapsto> TextFile (config_text net route add)),
                       trace := trace w @
                         [Ran c1, OpenedRead net, Ran c2, Ran c3, OpenedWrite add,
                          OpenedWrite cfg]\<rparr>))"
  unfolding process_area_def process_area_try_def path_exists_def
    convert_to_sumo_run generate_traffic_run create_config_run get_network_stats_run
  by (simp add: Let_def split: prod.splits)

text \<open>The same run, told by the outcome of each stage.\<close>

lemma after_cases:
  "tool e (netconvert_cmd (osm_file a) (lower (area_name a) @ ''.net.xml'')) 300 (files w) =
     after_convert e a w"
  "tool e (randomtrips_cmd (randomtrips_script e) (lower (area_name a) @ ''.net.xml'')
             (lower (area_name a) @ ''.trips.xml'')) 120 (snd (after_convert e a w)) =
     after_trips e a w"
  "tool e (duarouter_cmd (lower (area_name a) @ ''.net.xml'')
             (lower (area_name a) @ ''.trips.xml'') (lower (area_name a) @ ''.rou.xml'')) 120
          (snd (after_trips e a w)) =
     after_routes e a w"
  by (simp_all add: after_convert_def after_trips_def after_routes_def convert_call_def
      trips_call_def routes_call_def net_file_of_def trips_file_of_def route_file_of_def)

lemma run_result_eq:
  "run_result e a w =
     Inr (if files w (osm_file a) = None \<or> \<not> convert_ok e a w then initial_result a
          else if trips_exit_ok e a w \<and> routes_ok e a w \<and> config_ok e a w
          then (measured_result e a w)\<lparr>status := ''Success''\<rparr>
          else measured_result e a w)"
  unfolding run_result_def process_area_run
  by (simp add: Let_def case_prod_beta after_cases convert_ok_def trips_exit_ok_def
      routes_ok_def config_ok_def measured_def initial_result_def measured_result_def
      net_file_of_def route_file_of_def add_file_of_def config_file_of_def)

lemma run_events_eq:
  "run_events e a w =
     (if files w (osm_file a) = None then []
      else if \<not> convert_ok e a w then [Ran (convert_call a)]
      else if \<not> trips_exit_ok e a w
      then [Ran (convert_call a), OpenedRead (net_file_of a), Ran (trips_call e a)]
      else if \<not> routes_ok e a w
      then [Ran (convert_call a), OpenedRead (net_file_of a), Ran (trips_call e a),
            Ran (routes_call a)]
      else if snd (after_routes e a w) (add_file_of a) = Some Blocked
      then [Ran (convert_call a), OpenedRead (net_file_of a), Ran (trips_call e a),
            Ran (routes_call a), OpenedWrite (add_file_of a)]
      else [Ran (convert_call a), OpenedRead (net_file_of a), Ran (trips_call e a),
            Ran (routes_call a), OpenedWrite (add_file_of a), OpenedWrite (config_file_of a)])"
  unfolding run_events_def process_area_run
  by (simp add: Let_def case_prod_beta after_cases convert_ok_def trips_exit_ok_def
      routes_ok_def config_ok_def convert_call_def trips_call_def routes_call_def
      net_file_of_def trips_file_of_def route_file_of_def add_file_of_def config_file_of_def)

lemma trips_ok_exit: "trips_ok e a w \<Longrightarrow> trips_exit_ok e a w"
  by (cases "fst (after_trips e a w)") (simp_all add: trips_ok_def trips_exit_ok_def)

section \<open>Runs of the pipeline on the sample worlds\<close>

lemma lower_hebbal: "lower ''Hebbal'' = ''hebbal''"
  by code_simp

lemma sample_counts:
  "count_str sample_net ''<junction'' = 2" "count_str sample_net ''<edge'' = 1"
  by code_simp+

lemma hebbal_files:
  "net_file_of hebbal = ''hebbal.net.xml''"
  "trips_file_of hebbal = ''hebbal.trips.xml''"
  "route_file_of hebbal = ''hebbal.rou.xml''"
  "add_file_of hebbal = ''hebbal.add.xml''"
  "config_file_of hebbal = ''hebbal.sumocfg''"
  "area_name hebbal = ''Hebbal''"
  "osm_file hebbal = ''hebbal.osm''"
  by (simp_all add: net_file_of_def trips_file_of_def route_file_of_def add_file_of_def
      config_file_of_def hebbal_def lower_hebbal)

lemma stub_script:
  "randomtrips_script (stub_env n t r) = ''/usr/local/share/sumo/tools/randomTrips.py''"
  by (simp add: randomtrips_script_def stub_env_def path_join_def)

lemma stub_tool_of: "tool (stub_env n t r) = stub_tool n t r"
  by (simp add: stub_env_def)

lemmas stub_defs = stub_script stub_tool_of arg_at_def
  convert_ok_def trips_exit_ok_def trips_ok_def routes_ok_def config_ok_def
  after_convert_def after_trips_def after_routes_def convert_call_def trips_call_def
  routes_call_def netconvert_cmd_def randomtrips_cmd_def duarouter_cmd_def
  hebbal_files stub_tool_def source_only_def world_of_def
  measured_def net_stats_def sample_counts

lemma source_there: "files source_only ''hebbal.osm'' = Some (TextFile ''<osm/>'')"
  by (simp add: source_only_def world_of_def)

lemma silent_stages:
  "convert_ok trips_silent hebbal source_only"
  "trips_exit_ok trips_silent hebbal source_only"
  "trips_ok trips_silent hebbal source_only = False"
  "routes_ok trips_silent hebbal source_only"
  "config_ok trips_silent hebbal source_only"
  "measured trips_silent hebbal source_only = (2, 1)"
  "snd (after_trips trips_silent hebbal source_only) ''hebbal.trips.xml'' = None"
  "snd (after_routes trips_silent hebbal source_only) ''hebbal.add.xml'' = None"
  by (simp_all add: stub_defs trips_silent_def)

lemma missing_stages:
  "convert_ok netconvert_missing hebbal source_only = False"
  "convert_ok netconvert_times_out hebbal source_only = False"
  by (simp_all add: stub_defs netconvert_missing_def netconvert_times_out_def)

lemma trips_fail_stages:
  "convert_ok trips_fail hebbal source_only"
  "trips_exit_ok trips_fail hebbal source_only = False"
  "measured trips_fail hebbal source_only = (2, 1)"
  by (simp_all add: stub_defs trips_fail_def)

lemma routes_fail_stages:
  "convert_ok routes_fail hebbal source_only"
  "trips_exit_ok routes_fail hebbal source_only"
  "trips_ok routes_fail hebbal source_only"
  "routes_ok routes_fail hebbal source_only = False"
  "measured routes_fail hebbal source_only = (2, 1)"
  by (simp_all add: stub_defs routes_fail_def)

lemma all_work_stages:
  "convert_ok all_tools_work hebbal source_only"
  "trips_exit_ok all_tools_work hebbal source_only"
  "trips_ok all_tools_work hebbal source_only"
  "routes_ok all_tools_work hebbal source_only"
  "config_ok all_tools_work hebbal source_only"
  "measured all_tools_work hebbal source_only = (2, 1)"
  by (simp_all add: stub_defs all_tools_work_def)

lemma unreadable_stages:
  "convert_ok net_unreadable hebbal source_only"
  "trips_exit_ok net_unreadable hebbal source_only"
  "trips_ok net_unreadable hebbal source_only"
  "routes_ok net_unreadable hebbal source_only"
  "config_ok net_unreadable hebbal source_only"
  "snd (after_convert net_unreadable hebbal source_only) (net_file_of hebbal) = Some Blocked"
  by (simp_all add: stub_defs net_unreadable_def)

lemma silent_then_routes_fail_stages:
  "convert_ok silent_then_routes_fail hebbal source_only"
  "trips_exit_ok silent_then_routes_fail hebbal source_only"
  "trips_ok silent_then_routes_fail hebbal source_only = False"
  "routes_ok silent_then_routes_fail hebbal source_only = False"
  "measured silent_then_routes_fail hebbal source_only = (2, 1)"
  by (simp_all add: stub_defs silent_then_routes_fail_def)

lemma other_silent_stages:
  "convert_ok netconvert_silent hebbal source_only = False"
  "convert_ok routes_silent hebbal source_only"
  "trips_exit_ok routes_silent hebbal source_only"
  "routes_ok routes_silent hebbal source_only = False"
  "measured routes_silent hebbal source_only = (2, 1)"
  by (simp_all add: stub_defs routes_silent_def netconvert_silent_def)

lemma trips_silent_files:
  "files (snd (process_area trips_silent hebbal source_only)) ''hebbal.trips.xml'' = None"
  "files (snd (process_area trips_silent hebbal source_only)) ''hebbal.rou.xml'' =
     Some (TextFile ''<routes/>'')"
  unfolding process_area_run
  by (simp_all add: stub_defs trips_silent_def Let_def source_there lower_hebbal)

section \<open>The pipeline for one area\<close>

text \<open>
  Claim C3. The claim asks that a stage whose tool exits with 0 without leaving its
  output file reports failure. The Convert step and the route step test the file
  (\<open>produced\<close>); the trip step of \<open>generate_traffic\<close> tests the return code alone. Here
  the trip synthesizer exits with 0 and writes nothing: the trips file is absent, the
  route computer is invoked all the same, and the area ends with status Success.
\<close>

theorem trips_artifact_unchecked: 
  "run_result trips_silent hebbal source_only =
     Inr \<lparr>name = ''Hebbal'', status = ''Success'', junctions = 2, edges = 1, vehicles = 100\<rparr>
   \<and> trips_exit_ok trips_silent hebbal source_only
   \<and> snd (after_trips trips_silent hebbal source_only) ''hebbal.trips.xml'' = None
   \<and> run_events trips_silent hebbal source_only =
       [Ran (convert_call hebbal), OpenedRead ''hebbal.net.xml'', Ran (trips_call trips_silent hebbal),
        Ran (routes_call hebbal), OpenedWrite ''hebbal.add.xml'', OpenedWrite ''hebbal.sumocfg'']"
  by (simp add: run_result_eq run_events_eq source_there silent_stages measured_result_def hebbal_files)

text \<open>
  A run whose source file is missing and a run whose source file is there but whose
  converter cannot be started return the same record: the result has the five fields
  \<open>name\<close>, \<open>status\<close>, \<open>junctions\<close>, \<open>edges\<close> and \<open>vehicles\<close>, and none of them tells
  the precondition check from stage 1.
\<close>

theorem result_does_not_name_failed_step:
  "run_result netconvert_missing hebbal (world_of []) =
     Inr \<lparr>name = ''Hebbal'', status = ''Failed'', junctions = 0, edges = 0, vehicles = 100\<rparr>
   \<and> run_result netconvert_missing hebbal source_only =
     Inr \<lparr>name = ''Hebbal'', status = ''Failed'', junctions = 0, edges = 0, vehicles = 100\<rparr>
   \<and> run_events netconvert_missing hebbal (world_of []) = []
   \<and> run_events netconvert_missing hebbal source_only = [Ran (convert_call hebbal)]"
  by (simp add: run_result_eq run_events_eq source_there missing_stages initial_result_def
      hebbal_files world_of_def)

text \<open>
  Claim C4, as amended. For every area whose source file does not exist,
  \<open>process_area\<close> returns the result it started from, with status Failed, zero
  junctions and edges and 100 vehicles, and leaves the world as it found it: no tool is
  invoked and no file is opened. The result has no field for the failing step.
\<close>

theorem missing_source_fails_without_tools: 
  "files w (osm_file a) = None \<Longrightarrow>
     process_area e a w =
       (Inr \<lparr>name = area_name a, status = ''Failed'', junctions = 0, edges = 0, vehicles = 100\<rparr>, w)
     \<and> run_events e a w = []"
  by (simp add: run_events_eq) (simp add: process_area_def path_exists_def)

theorem missing_source_fails_without_tools_witness:
  "process_area all_tools_work hebbal (world_of []) =
       (Inr \<lparr>name = ''Hebbal'', status = ''Failed'', junctions = 0, edges = 0, vehicles = 100\<rparr>, world_of [])
     \<and> run_events all_tools_work hebbal (world_of []) = []"
  using missing_source_fails_without_tools [of "world_of []" hebbal all_tools_work]
  by (simp add: world_of_def hebbal_files)

text \<open>
  A run that fails in the trip step and a run that fails in the route step return the
  same record, although the first never invokes the route computer: the failing stage is
  not recorded in the result.
\<close>

theorem failed_stage_not_recorded:
  "run_result trips_fail hebbal source_only =
     Inr \<lparr>name = ''Hebbal'', status = ''Failed'', junctions = 2, edges = 1, vehicles = 100\<rparr>
   \<and> run_result routes_fail hebbal source_only =
     Inr \<lparr>name = ''Hebbal'', status = ''Failed'', junctions = 2, edges = 1, vehicles = 100\<rparr>
   \<and> run_events trips_fail hebbal source_only =
       [Ran (convert_call hebbal), OpenedRead ''hebbal.net.xml'', Ran (trips_call trips_fail hebbal)]
   \<and> run_events routes_fail hebbal source_only =
       [Ran (convert_call hebbal), OpenedRead ''hebbal.net.xml'', Ran (trips_call routes_fail hebbal),
        Ran (routes_call hebbal)]"
  by (simp add: run_result_eq run_events_eq source_there trips_fail_stages routes_fail_stages
      measured_result_def hebbal_files)

text \<open>
  Claim C5, as amended. The events of a run are the stages up to the first one the code
  finds failed, and the status is then Failed: a missing source ends the run before any
  tool is invoked; a converter that raises, exits with another code than 0 or leaves no
  network file ends it after the one call; a trip synthesizer that raises or exits with
  another code than 0 ends it before the route computer is invoked; a route computer that
  raises, exits with another code than 0 or leaves no route file ends it before any
  configuration file is opened; a first configuration file that cannot be written ends it
  before the second is opened, and a second that cannot be written gives Failed as well.
  When every stage has left its output, all of them ran and the status is Success. The
  result records no failing stage.
\<close>

theorem stops_at_first_failure:
  "(files w (osm_file a) = None \<longrightarrow>
        run_result e a w = Inr (initial_result a) \<and> run_events e a w = [])
   \<and> (files w (osm_file a) \<noteq> None \<and> \<not> convert_ok e a w \<longrightarrow>
        run_result e a w = Inr (initial_result a) \<and>
        run_events e a w = [Ran (convert_call a)])
   \<and> (files w (osm_file a) \<noteq> None \<and> convert_ok e a w \<and> \<not> trips_exit_ok e a w \<longrightarrow>
        run_result e a w = Inr (measured_result e a w) \<and>
        run_events e a w =
          [Ran (convert_call a), OpenedRead (net_file_of a), Ran (trips_call e a)])
   \<and> (files w (osm_file a) \<noteq> None \<and> convert_ok e a w \<and> trips_exit_ok e a w \<and>
       \<not> routes_ok e a w \<longrightarrow>
        run_result e a w = Inr (measured_result e a w) \<and>
        run_events e a w =
          [Ran (convert_call a), OpenedRead (net_file_of a), Ran (trips_call e a),
           Ran (routes_call a)])
   \<and> (files w (osm_file a) \<noteq> None \<and> convert_ok e a w \<and> trips_exit_ok e a w \<and>
       routes_ok e a w \<and> \<not> config_ok e a w \<longrightarrow>
        run_result e a w = Inr (measured_result e a w) \<and>
        run_events e a w =
          [Ran (convert_call a), OpenedRead (net_file_of a), Ran (trips_call e a),
           Ran (routes_call a), OpenedWrite (add_file_of a)] @
          (if snd (after_routes e a w) (add_file_of a) = Some Blocked then []
           else [OpenedWrite (config_file_of a)]))
   \<and> (files w (osm_file a) \<noteq> None \<and> convert_ok e a w \<and> trips_ok e a w \<and>
       routes_ok e a w \<and> config_ok e a w \<longrightarrow>
        run_result e a w = Inr ((measured_result e a w)\<lparr>status := ''Success''\<rparr>) \<and>
        run_events e a w =
          [Ran (convert_call a), OpenedRead (net_file_of a), Ran (trips_call e a),
           Ran (routes_call a), OpenedWrite (add_file_of a), OpenedWrite (config_file_of a)])"
proof (cases "files w (osm_file a) = None")
  case True
  then show ?thesis
    by (simp add: run_result_eq run_events_eq)
next
  case False
  then obtain nd where src: "files w (osm_file a) = Some nd"
    by auto
  have t: "trips_ok e a w \<Longrightarrow> trips_exit_ok e a w"
    by (rule trips_ok_exit)
  have c: "config_ok e a w \<Longrightarrow> snd (after_routes e a w) (add_file_of a) \<noteq> Some Blocked"
    by (simp add: config_ok_def)
  have r: "run_result e a w =
     Inr (if \<not> convert_ok e a w then initial_result a
          else if trips_exit_ok e a w \<and> routes_ok e a w \<and> config_ok e a w
          then (measured_result e a w)\<lparr>status := ''Success''\<rparr>
          else measured_result e a w)"
    using src by (simp add: run_result_eq)
  have ev: "run_events e a w =
     (if \<not> convert_ok e a w then [Ran (convert_call a)]
      else if \<not> trips_exit_ok e a w
      then [Ran (convert_call a), OpenedRead (net_file_of a), Ran (trips_call e a)]
      else if \<not> routes_ok e a w
      then [Ran (convert_call a), OpenedRead (net_file_of a), Ran (trips_call e a),
            Ran (routes_call a)]
      else if snd (after_routes e a w) (add_file_of a) = Some Blocked
      then [Ran (convert_call a), OpenedRead (net_file_of a), Ran (trips_call e a),
            Ran (routes_call a), OpenedWrite (add_file_of a)]
      else [Ran (convert_call a), OpenedRead (net_file_of a), Ran (trips_call e a),
            Ran (routes_call a), OpenedWrite (add_file_of a), OpenedWrite (config_file_of a)])"
    using src by (simp add: run_events_eq)
  show ?thesis
    using t c by (simp only: r ev src) (simp; blast)
qed

theorem stops_at_first_failure_witness:
  "run_events all_tools_work hebbal (world_of []) = []
   \<and> run_events netconvert_times_out hebbal source_only = [Ran (convert_call hebbal)]
   \<and> run_events trips_fail hebbal source_only =
       [Ran (convert_call hebbal), OpenedRead (net_file_of hebbal), Ran (trips_call trips_fail hebbal)]
   \<and> run_result trips_fail hebbal source_only = Inr (measured_result trips_fail hebbal source_only)
   \<and> run_events routes_fail hebbal source_only =
       [Ran (convert_call hebbal), OpenedRead (net_file_of hebbal), Ran (trips_call routes_fail hebbal),
        Ran (routes_call hebbal)]
   \<and> run_events silent_then_routes_fail hebbal source_only =
       [Ran (convert_call hebbal), OpenedRead (net_file_of hebbal),
        Ran (trips_call silent_then_routes_fail hebbal), Ran (routes_call hebbal)]
   \<and> run_result silent_then_routes_fail hebbal source_only =
       Inr (measured_result silent_then_routes_fail hebbal source_only)
   \<and> run_result all_tools_work hebbal source_only =
       Inr ((measured_result all_tools_work hebbal source_only)\<lparr>status := ''Success''\<rparr>)"
proof -
  have s: "files source_only (osm_file hebbal) \<noteq> None"
    "files (world_of []) (osm_file hebbal) = None"
    by (simp_all add: source_there hebbal_files world_of_def)
  show ?thesis
    using stops_at_first_failure [of "world_of []" hebbal all_tools_work]
      stops_at_first_failure [of source_only hebbal netconvert_times_out] stops_at_first_failure [of source_only hebbal trips_fail]
      stops_at_first_failure [of source_only hebbal routes_fail] stops_at_first_failure [of source_only hebbal silent_then_routes_fail]
      stops_at_first_failure [of source_only hebbal all_tools_work] s
    by (simp add: missing_stages trips_fail_stages routes_fail_stages all_work_stages
        silent_then_routes_fail_stages)
qed

text \<open>
  \<open>process_area\<close> returns a result and never an exception: the result carries the
  area's name and the status Success or Failed, and a missing source file, a tool that
  cannot be started, times out or exits with another code than 0, a missing network or
  route file and a configuration file that cannot be written each give the status Failed.
  Of the trip synthesizer the exit code alone is tested.
\<close>

lemma process_area_always_returns:
  "\<exists>r w'. process_area e a w = (Inr r, w') \<and> name r = area_name a \<and> vehicles r = 100 \<and>
     (status r = ''Success'' \<or> status r = ''Failed'') \<and>
     (files w (osm_file a) = None \<or> \<not> convert_ok e a w \<or> \<not> trips_exit_ok e a w \<or>
      \<not> routes_ok e a w \<or> \<not> config_ok e a w \<longrightarrow> status r = ''Failed'')"
proof -
  obtain x w' where p: "process_area e a w = (x, w')"
    by (cases "process_area e a w")
  then have "run_result e a w = x"
    by (simp add: run_result_def)
  then obtain r where r: "x = Inr r" and
    d: "r = (if files w (osm_file a) = None \<or> \<not> convert_ok e a w then initial_result a
          else if trips_exit_ok e a w \<and> routes_ok e a w \<and> config_ok e a w
          then (measured_result e a w)\<lparr>status := ''Success''\<rparr>
          else measured_result e a w)"
    by (simp add: run_result_eq)
  show ?thesis
    using p r d by (auto simp add: initial_result_def measured_result_def)
qed

text \<open>
  Claim C6. The claim asks that every failure mode, a missing output artifact among
  them, is returned as data in the result. No run raises, but the missing output of the
  trip synthesizer is not captured: the tool exits with 0 and writes nothing, the trips
  file is absent from the world the run returns, and the result says Success. The same
  fault of the route computer or of the converter is returned as Failed.
\<close>

theorem missing_trips_file_returned_as_success:
  "fst (process_area trips_silent hebbal source_only) =
     Inr \<lparr>name = ''Hebbal'', status = ''Success'', junctions = 2, edges = 1, vehicles = 100\<rparr>
   \<and> files (snd (process_area trips_silent hebbal source_only)) ''hebbal.trips.xml'' = None
   \<and> fst (process_area routes_silent hebbal source_only) =
     Inr \<lparr>name = ''Hebbal'', status = ''Failed'', junctions = 2, edges = 1, vehicles = 100\<rparr>
   \<and> fst (process_area netconvert_silent hebbal source_only) =
     Inr \<lparr>name = ''Hebbal'', status = ''Failed'', junctions = 0, edges = 0, vehicles = 100\<rparr>"
  using run_result_eq [of trips_silent hebbal source_only]
    run_result_eq [of routes_silent hebbal source_only]
    run_result_eq [of netconvert_silent hebbal source_only]
  by (simp add: run_result_def source_there silent_stages other_silent_stages
      measured_result_def initial_result_def hebbal_files trips_silent_files)

text \<open>
  Claim C7. \<open>get_network_stats\<close> never raises, and returns \<open>(0, 0)\<close> whenever the file
  cannot be read as text. In a run where the converter has left a network file that
  cannot be read, the junction and edge counts of the result are zero and the run goes on
  to the trip synthesizer; when the later stages leave their outputs the status is
  Success.
\<close>

theorem measure_failure_not_fatal:
  "(\<exists>st w'. get_network_stats p w = (Inr st, w') \<and>
      (case files w p of Some (TextFile s) \<Rightarrow> True | _ \<Rightarrow> st = (0, 0)))
   \<and> (files w (osm_file a) \<noteq> None \<and> convert_ok e a w \<and>
       snd (after_convert e a w) (net_file_of a) = Some Blocked \<longrightarrow>
       (\<exists>r. run_result e a w = Inr r \<and> junctions r = 0 \<and> edges r = 0 \<and>
          take 3 (run_events e a w) =
            [Ran (convert_call a), OpenedRead (net_file_of a), Ran (trips_call e a)] \<and>
          (trips_ok e a w \<and> routes_ok e a w \<and> config_ok e a w \<longrightarrow> status r = ''Success'')))"
proof (intro conjI impI)
  show "\<exists>st w'. get_network_stats p w = (Inr st, w') \<and>
      (case files w p of Some (TextFile s) \<Rightarrow> True | _ \<Rightarrow> st = (0, 0))"
    by (simp add: get_network_stats_run net_stats_def split: option.splits node.splits)
next
  assume h: "files w (osm_file a) \<noteq> None \<and> convert_ok e a w \<and>
       snd (after_convert e a w) (net_file_of a) = Some Blocked"
  then obtain nd where src: "files w (osm_file a) = Some nd"
    by auto
  have m: "measured e a w = (0, 0)"
    using h by (simp add: measured_def net_stats_def)
  have t: "trips_ok e a w \<Longrightarrow> trips_exit_ok e a w"
    by (rule trips_ok_exit)
  show "\<exists>r. run_result e a w = Inr r \<and> junctions r = 0 \<and> edges r = 0 \<and>
          take 3 (run_events e a w) =
            [Ran (convert_call a), OpenedRead (net_file_of a), Ran (trips_call e a)] \<and>
          (trips_ok e a w \<and> routes_ok e a w \<and> config_ok e a w \<longrightarrow> status r = ''Success'')"
    using h t by (simp add: run_result_eq run_events_eq src m measured_result_def)
qed

theorem measure_failure_not_fatal_witness:
  "run_result net_unreadable hebbal source_only =
     Inr \<lparr>name = ''Hebbal'', status = ''Success'', junctions = 0, edges = 0, vehicles = 100\<rparr>"
proof -
  have s: "files source_only (osm_file hebbal) \<noteq> None"
    by (simp add: source_there hebbal_files)
  from measure_failure_not_fatal [of "net_file_of hebbal" source_only hebbal net_unreadable] s unreadable_stages
  obtain r where "run_result net_unreadable hebbal source_only = Inr r"
    and "junctions r = 0" and "edges r = 0" and "status r = ''Success''"
    by blast
  moreover have "name r = ''Hebbal''" and "vehicles r = 100"
    using calculation(1)
    by (auto simp add: run_result_eq initial_result_def measured_result_def hebbal_files
        split: if_splits)
  ultimately show ?thesis
    by (cases r) simp
qed

text \<open>
  Claim C10. Every result of \<open>process_area\<close> has 100 vehicles, whatever its status, and
  once the converter has succeeded its junction and edge counts are the ones measured on
  the network file, whether or not a later stage fails. There is a run that ends Failed
  with nonzero junction and edge counts.
\<close>

theorem vehicles_fixed_metrics_kept:
  "(\<exists>r w'. process_area e a w = (Inr r, w') \<and> vehicles r = 100 \<and>
      (files w (osm_file a) \<noteq> None \<and> convert_ok e a w \<longrightarrow>
         junctions r = fst (measured e a w) \<and> edges r = snd (measured e a w)))
   \<and> (\<exists>e' a' w' r'. run_result e' a' w' = Inr r' \<and> status r' = ''Failed'' \<and>
         0 < junctions r' \<and> 0 < edges r' \<and> vehicles r' = 100)"
proof
  obtain x w' where p: "process_area e a w = (x, w')"
    by (cases "process_area e a w")
  then have "run_result e a w = x"
    by (simp add: run_result_def)
  then obtain r where r: "x = Inr r" and
    d: "r = (if files w (osm_file a) = None \<or> \<not> convert_ok e a w then initial_result a
          else if trips_exit_ok e a w \<and> routes_ok e a w \<and> config_ok e a w
          then (measured_result e a w)\<lparr>status := ''Success''\<rparr>
          else measured_result e a w)"
    by (simp add: run_result_eq)
  show "\<exists>r w'. process_area e a w = (Inr r, w') \<and> vehicles r = 100 \<and>
      (files w (osm_file a) \<noteq> None \<and> convert_ok e a w \<longrightarrow>
         junctions r = fst (measured e a w) \<and> edges r = snd (measured e a w))"
    using p r d by (auto simp add: initial_result_def measured_result_def)
next
  have "run_result routes_fail hebbal source_only =
     Inr \<lparr>name = ''Hebbal'', status = ''Failed'', junctions = 2, edges = 1, vehicles = 100\<rparr>"
    by (simp add: run_result_eq source_there routes_fail_stages measured_result_def hebbal_files)
  then show "\<exists>e' a' w' r'. run_result e' a' w' = Inr r' \<and> status r' = ''Failed'' \<and>
         0 < junctions r' \<and> 0 < edges r' \<and> vehicles r' = 100"
    by (intro exI [of _ routes_fail] exI [of _ hebbal] exI [of _ source_only]
        exI [of _ "\<lparr>name = ''Hebbal'', status = ''Failed'', junctions = 2, edges = 1, vehicles = 100\<rparr>"])
      simp
qed

theorem vehicles_fixed_metrics_kept_witness:
  "\<exists>r w'. process_area trips_fail hebbal source_only = (Inr r, w') \<and> vehicles r = 100 \<and>
     junctions r = 2 \<and> edges r = 1"
proof -
  have s: "files source_only (osm_file hebbal) \<noteq> None"
    by (simp add: source_there hebbal_files)
  show ?thesis
    using vehicles_fixed_metrics_kept [of trips_fail hebbal source_only] s
    by (auto simp add: trips_fail_stages)
qed

section \<open>The totals of the final report\<close>

lemma report_step_counters:
  "successful (report_step i r st) = successful st + (if status r = ''Success'' then 1 else 0)"
  "total_junctions (report_step i r st) =
     total_junctions st + (if status r = ''Success'' then junctions r else 0)"
  "total_edges (report_step i r st) =
     total_edges st + (if status r = ''Success'' then edges r else 0)"
  by (simp_all add: report_step_def Let_def)

lemma report_loop_counters:
  "successful (report_loop i rs st) =
     successful st + int (length (filter (\<lambda>r. status r = ''Success'') rs)) \<and>
   total_junctions (report_loop i rs st) =
     total_junctions st + sum_list (map junctions (filter (\<lambda>r. status r = ''Success'') rs)) \<and>
   total_edges (report_loop i rs st) =
     total_edges st + sum_list (map edges (filter (\<lambda>r. status r = ''Success'') rs))"
proof (induction rs arbitrary: i st)
  case Nil
  show ?case by simp
next
  case (Cons r rs)
  show ?case
    by (simp add: Cons.IH report_step_counters)
qed

lemma final_totals_formula:
  "final_totals rs c =
     \<lparr>areasCompleted = 1 + int (length (filter (\<lambda>r. status r = ''Success'') rs)),
      totalJunctions = 94 + sum_list (map junctions (filter (\<lambda>r. status r = ''Success'') rs)),
      totalEdges = 198 + sum_list (map edges (filter (\<lambda>r. status r = ''Success'') rs)),
      totalVehicles = 100 * (1 + int (length (filter (\<lambda>r. status r = ''Success'') rs)))\<rparr>"
  by (simp add: final_totals_def final_state_def report_totals_def report_loop_counters)

lemma sum_fixed_vehicles:
  "\<forall>r \<in> set rs. vehicles r = 100 \<Longrightarrow> sum_list (map vehicles rs) = 100 * int (length rs)"
  by (induction rs) simp_all

lemma round_trip_statistics:
  "statistics_text
     \<lparr>areasCompleted = 2, totalJunctions = 179, totalEdges = 378, totalVehicles = 200\<rparr> =
   rule80 @ ''\<newline>OVERALL STATISTICS\<newline>'' @ rule80 @
   ''\<newline>\<newline>Total Areas Completed: 2/8\<newline>Total Junctions: 179\<newline>'' @
   ''Total Road Segments: 378\<newline>Total Vehicles: 200\<newline>\<newline>''"
  by code_simp

text \<open>
  Claim C1. With the fixed baseline (94 junctions, 198 edges, 100 vehicles) and the
  results of one Success entry (85 junctions, 180 edges, 100 vehicles) followed by one
  Failed entry, the totals of the final report are 2 areas completed, 179 junctions,
  378 edges and 200 vehicles, and these are the numbers printed in the section OVERALL
  STATISTICS. The Failed entry adds nothing, whatever junction, edge and vehicle counts
  it carries: the totals are those of the Success entry alone.
\<close>

theorem round_trip_totals:
  "final_totals
     [\<lparr>name = na, status = ''Success'', junctions = 85, edges = 180, vehicles = 100\<rparr>,
      \<lparr>name = nb, status = ''Failed'', junctions = jb, edges = eb, vehicles = vb\<rparr>] c =
     \<lparr>areasCompleted = 2, totalJunctions = 179, totalEdges = 378, totalVehicles = 200\<rparr>
   \<and> statistics_text (final_totals
     [\<lparr>name = na, status = ''Success'', junctions = 85, edges = 180, vehicles = 100\<rparr>,
      \<lparr>name = nb, status = ''Failed'', junctions = jb, edges = eb, vehicles = vb\<rparr>] c) =
     rule80 @ ''\<newline>OVERALL STATISTICS\<newline>'' @ rule80 @
     ''\<newline>\<newline>Total Areas Completed: 2/8\<newline>Total Junctions: 179\<newline>'' @
     ''Total Road Segments: 378\<newline>Total Vehicles: 200\<newline>\<newline>''
   \<and> final_totals
     [\<lparr>name = na, status = ''Success'', junctions = 85, edges = 180, vehicles = 100\<rparr>,
      \<lparr>name = nb, status = ''Failed'', junctions = jb, edges = eb, vehicles = vb\<rparr>] c =
     final_totals
     [\<lparr>name = na, status = ''Success'', junctions = 85, edges = 180, vehicles = 100\<rparr>] c"
proof -
  have t: "final_totals
     [\<lparr>name = na, status = ''Success'', junctions = 85, edges = 180, vehicles = 100\<rparr>,
      \<lparr>name = nb, status = ''Failed'', junctions = jb, edges = eb, vehicles = vb\<rparr>] c =
     \<lparr>areasCompleted = 2, totalJunctions = 179, totalEdges = 378, totalVehicles = 200\<rparr>"
    by (simp add: final_totals_formula)
  have u: "final_totals
     [\<lparr>name = na, status = ''Success'', junctions = 85, edges = 180, vehicles = 100\<rparr>] c =
     \<lparr>areasCompleted = 2, totalJunctions = 179, totalEdges = 378, totalVehicles = 200\<rparr>"
    by (simp add: final_totals_formula)
  show ?thesis
    by (simp only: t u round_trip_statistics)
qed

text \<open>
  Claim C2. For every sequence of results, the totals of the final report depend on the
  results with status Success only: they are the totals of the sequence with every other
  entry removed. The number of areas, the junctions and the edges are the baseline's
  (1, 94, 198) plus the sums over the Success entries, as the specification's
  aggregation has them, and the vehicle total is 100 for the baseline plus 100 for each
  Success entry. Where every Success entry carries the configured vehicle count 100,
  as every result of \<open>process_area\<close> does, the four totals are those of the
  specification's aggregation.
\<close>

theorem totals_fold_over_successes:
  "final_totals results c = final_totals (filter (\<lambda>r. status r = ''Success'') results) c
   \<and> areasCompleted (final_totals results c) =
       areasCompleted (spec_aggregate electronic_city results)
   \<and> totalJunctions (final_totals results c) =
       totalJunctions (spec_aggregate electronic_city results)
   \<and> totalEdges (final_totals results c) =
       totalEdges (spec_aggregate electronic_city results)
   \<and> totalVehicles (final_totals results c) =
       100 + 100 * int (length (filter (\<lambda>r. status r = ''Success'') results))
   \<and> ((\<forall>r \<in> set results. status r = ''Success'' \<longrightarrow> vehicles r = 100) \<longrightarrow>
        final_totals results c = spec_aggregate electronic_city results)"
proof -
  let ?ok = "filter (\<lambda>r. status r = ''Success'') results"
  have same: "final_totals results c = final_totals ?ok c"
    by (simp add: final_totals_formula)
  have fixed: "sum_list (map vehicles ?ok) = 100 * int (length ?ok)"
    if "\<forall>r \<in> set results. status r = ''Success'' \<longrightarrow> vehicles r = 100"
    using that by (intro sum_fixed_vehicles) simp
  show ?thesis
    using same fixed
    by (simp add: final_totals_formula spec_aggregate_def electronic_city_def Let_def)
qed

theorem totals_fold_over_successes_witness:
  "final_totals [area_a, area_b] sample_clock = spec_aggregate electronic_city [area_a, area_b]
   \<and> final_totals [area_a, area_b] sample_clock = final_totals [area_a] sample_clock"
proof -
  have h: "\<forall>r \<in> set [area_a, area_b]. status r = ''Success'' \<longrightarrow> vehicles r = 100"
    by (simp add: area_a_def area_b_def)
  have f: "filter (\<lambda>r. status r = ''Success'') [area_a, area_b] = [area_a]"
    by (simp add: area_a_def area_b_def)
  note t = totals_fold_over_successes [of "[area_a, area_b]" sample_clock]
  from t h have "final_totals [area_a, area_b] sample_clock =
      spec_aggregate electronic_city [area_a, area_b]"
    by blast
  moreover from t f have "final_totals [area_a, area_b] sample_clock =
      final_totals [area_a] sample_clock"
    by simp
  ultimately show ?thesis
    by blast
qed

section \<open>The text of the final report\<close>

lemma report_step_written:
  "written (report_step i r st) = written st @ written (report_step i r blank_state)"
  by (simp add: report_step_def Let_def blank_state_def)

lemma report_loop_written:
  "written (report_loop i rs st) = written st @ written (report_loop i rs blank_state)"
proof (induction rs arbitrary: i st)
  case Nil
  show ?case by (simp add: blank_state_def)
next
  case (Cons r rs)
  have "written (report_loop i (r # rs) st) =
          written (report_step i r st) @ written (report_loop (i + 1) rs blank_state)"
    using Cons.IH [of "i + 1" "report_step i r st"] by simp
  also have "\<dots> = written st @ written (report_step i r blank_state) @
                    written (report_loop (i + 1) rs blank_state)"
    by (simp add: report_step_written [of i r st])
  also have "\<dots> = written st @ written (report_loop i (r # rs) blank_state)"
    using Cons.IH [of "i + 1" "report_step i r blank_state"] by simp
  finally show ?case .
qed

lemma final_report_text_shape:
  "final_report_text results c =
     text_before_date @ completion_date c @ text_between @ processing_time c @
     text_after_time results"
  unfolding final_report_text_def final_state_def
  apply (subst report_loop_written)
  apply (simp add: report_head_def final_totals_formula text_before_date_def text_between_def
      text_after_time_def)
  done

text \<open>
  Two renderings of the same results with the same completion date differ as soon as the
  processing time differs: the report embeds a second reading of the clock.
\<close>

theorem processing_time_varies_too:
  "final_report_text [area_a]
     \<lparr>completion_date = ''2025-01-01 10:00:00'', processing_time = ''0:00:01.250000''\<rparr>
   \<noteq> final_report_text [area_a]
     \<lparr>completion_date = ''2025-01-01 10:00:00'', processing_time = ''0:00:02.500000''\<rparr>"
  by (simp add: final_report_text_shape)

text \<open>
  Claim C9, as amended. For fixed results, the text that \<open>generate_final_report\<close>
  writes is the same at every invocation but for two fields read off the clock: it is a
  fixed text, the completion date, a second fixed text, the processing time, and a
  remainder that depends on the results alone.
\<close>

theorem report_fixed_but_for_two_clock_fields: "\<exists>pre mid. \<forall>results. \<exists>post. \<forall>c.
    final_report_text results c = pre @ completion_date c @ mid @ processing_time c @ post"
  using final_report_text_shape by blast

section \<open>The exit code of the batch command\<close>

lemma all_filter_length:
  "(length (filter P xs) = length xs) = list_all P xs"
proof (induction xs)
  case Nil
  show ?case by simp
next
  case (Cons x xs)
  show ?case
  proof (cases "P x")
    case True
    then show ?thesis using Cons.IH by simp
  next
    case False
    have "length (filter P xs) \<le> length xs"
      by (rule length_filter_le)
    then have "length (filter P xs) \<noteq> Suc (length xs)"
      by arith
    then show ?thesis using False by simp
  qed
qed

lemma process_area_inr: "\<exists>r w'. process_area e a w = (Inr r, w')"
proof -
  have "fst (process_area e a w) = Inr (if files w (osm_file a) = None \<or> \<not> convert_ok e a w then initial_result a
          else if trips_exit_ok e a w \<and> routes_ok e a w \<and> config_ok e a w
          then (measured_result e a w)\<lparr>status := ''Success''\<rparr>
          else measured_result e a w)"
    using run_result_eq [of e a w] by (simp add: run_result_def)
  then show ?thesis
    by (cases "process_area e a w") auto
qed

lemma process_all_run:
  "\<exists>rs w'. process_all e as acc w = (Inr (acc @ rs), w') \<and> length rs = length as"
proof (induction as arbitrary: acc w)
  case Nil
  show ?case by simp
next
  case (Cons a as)
  obtain r w1 where p: "process_area e a w = (Inr r, w1)"
    using process_area_inr by blast
  obtain rs w' where "process_all e as (acc @ [r]) w1 = (Inr ((acc @ [r]) @ rs), w')"
    and "length rs = length as"
    using Cons.IH by blast
  then show ?case
    using p by (intro exI [of _ "r # rs"] exI [of _ w']) simp
qed

lemma generate_final_report_run:
  "generate_final_report results c w =
     (if files w report_file = Some Blocked
      then (Inl OSError, w\<lparr>trace := trace w @ [OpenedWrite report_file]\<rparr>)
      else (Inr report_file,
            w\<lparr>files := (files w)(report_file \<mapsto> TextFile (final_report_text results c)),
              trace := trace w @ [OpenedWrite report_file]\<rparr>))"
  by (simp add: generate_final_report_def write_text_run report_file_def Let_def)

lemma main_exit_code:
  "(exit_code (fst (main e c w)) = 0) =
     (all_succeeded (fst (process_all e AREAS [] w)) \<and>
      files (snd (process_all e AREAS [] w)) report_file \<noteq> Some Blocked)"
  "exit_code (fst (main e c w)) = 0 \<or> exit_code (fst (main e c w)) = 1"
proof -
  obtain rs w1 where p: "process_all e AREAS [] w = (Inr rs, w1)" and l: "length rs = length AREAS"
    using process_all_run [of e AREAS "[]" w] by auto
  have seven: "length AREAS = 7"
    by (simp add: AREAS_def)
  have "(count_success rs = 7) = list_all (\<lambda>r. status r = ''Success'') rs"
    using all_filter_length [of "\<lambda>r. status r = ''Success''" rs] l seven
    by (simp add: count_success_def)
  then show "(exit_code (fst (main e c w)) = 0) =
     (all_succeeded (fst (process_all e AREAS [] w)) \<and>
      files (snd (process_all e AREAS [] w)) report_file \<noteq> Some Blocked)"
    by (simp add: main_def p generate_final_report_run all_succeeded_def Let_def)
  show "exit_code (fst (main e c w)) = 0 \<or> exit_code (fst (main e c w)) = 1"
    by (simp add: main_def p generate_final_report_run Let_def)
qed

text \<open>
  With tools that always produce their output, an area whose source is there and whose
  two configuration files can be written ends with \<open>Success\<close>; the run leaves the path
  of the final report alone, removes no file and blocks no path.
\<close>

lemma stub_calls:
  "stub_tool n t r (netconvert_cmd osm net) tm f = act n net f"
  "stub_tool n t r (randomtrips_cmd s net trips) tm f = act t trips f"
  "stub_tool n t r (duarouter_cmd net trips route) tm f = act r route f"
  by (simp_all add: stub_tool_def netconvert_cmd_def randomtrips_cmd_def duarouter_cmd_def
      arg_at_def)

lemma apart: "last x \<noteq> last y \<Longrightarrow> x \<noteq> y"
  by auto

lemma report_file_apart:
  "report_file \<noteq> s @ ''.net.xml''" "report_file \<noteq> s @ ''.trips.xml''"
  "report_file \<noteq> s @ ''.rou.xml''" "report_file \<noteq> s @ ''.add.xml''"
  "report_file \<noteq> s @ ''.sumocfg''"
  by (rule apart, simp add: report_file_def)+

lemma all_tools_work_area:
  assumes "files w (osm_file a) \<noteq> None"
    and "files w (add_file_of a) \<noteq> Some Blocked"
    and "files w (config_file_of a) \<noteq> Some Blocked"
  shows "\<exists>r w'. process_area all_tools_work a w = (Inr r, w') \<and> status r = ''Success'' \<and>
           files w' report_file = files w report_file \<and>
           (\<forall>p. files w p \<noteq> None \<longrightarrow> files w' p \<noteq> None) \<and>
           (\<forall>p. files w p \<noteq> Some Blocked \<longrightarrow> files w' p \<noteq> Some Blocked)"
  using assms
  unfolding process_area_run all_tools_work_def stub_tool_of stub_calls Let_def
  by (simp add: report_file_apart add_file_of_def config_file_of_def)


lemma all_tools_work_all:
  assumes "list_all (\<lambda>a. files w (osm_file a) \<noteq> None \<and>
                     files w (add_file_of a) \<noteq> Some Blocked \<and>
                     files w (config_file_of a) \<noteq> Some Blocked) as"
    and "list_all (\<lambda>r. status r = ''Success'') acc"
  shows "\<exists>rs w'. process_all all_tools_work as acc w = (Inr rs, w') \<and>
           list_all (\<lambda>r. status r = ''Success'') rs \<and>
           files w' report_file = files w report_file"
  using assms
proof (induction as arbitrary: acc w)
  case Nil
  then show ?case by simp
next
  case (Cons a as)
  obtain r w1 where p: "process_area all_tools_work a w = (Inr r, w1)"
    and s: "status r = ''Success''"
    and f: "files w1 report_file = files w report_file"
    and n: "\<forall>p. files w p \<noteq> None \<longrightarrow> files w1 p \<noteq> None"
    and b: "\<forall>p. files w p \<noteq> Some Blocked \<longrightarrow> files w1 p \<noteq> Some Blocked"
    using all_tools_work_area [of w a] Cons.prems(1) by auto
  have "list_all (\<lambda>a. files w1 (osm_file a) \<noteq> None \<and>
                     files w1 (add_file_of a) \<noteq> Some Blocked \<and>
                     files w1 (config_file_of a) \<noteq> Some Blocked) as"
    using Cons.prems(1) n b by (simp add: list_all_iff)
  moreover have "list_all (\<lambda>r. status r = ''Success'') (acc @ [r])"
    using Cons.prems(2) s by simp
  ultimately obtain rs w' where "process_all all_tools_work as (acc @ [r]) w1 = (Inr rs, w')"
    and "list_all (\<lambda>r. status r = ''Success'') rs"
    and "files w' report_file = files w1 report_file"
    using Cons.IH [of w1 "acc @ [r]"] by blast
  then show ?case
    using p f by simp
qed

lemma lower_names:
  "lower ''Indiranagar'' = ''indiranagar''" "lower ''Whitefield'' = ''whitefield''"
  "lower ''Koramangala'' = ''koramangala''" "lower ''MG_Road'' = ''mg_road''"
  "lower ''Jayanagar'' = ''jayanagar''" "lower ''Yeshwanthpur'' = ''yeshwanthpur''"
  by code_simp+

lemma ready_samples: "ready seven_worlds" "ready report_blocked"
  by (simp_all add: ready_def AREAS_def seven_worlds_def report_blocked_def world_of_def
      add_file_of_def config_file_of_def report_file_def lower_names lower_hebbal)

lemma all_tools_work_batch:
  assumes "ready w"
  shows "all_succeeded (fst (process_all all_tools_work AREAS [] w))"
    and "files (snd (process_all all_tools_work AREAS [] w)) report_file = files w report_file"
proof -
  obtain rs w' where "process_all all_tools_work AREAS [] w = (Inr rs, w')"
    and "list_all (\<lambda>r. status r = ''Success'') rs"
    and "files w' report_file = files w report_file"
    using all_tools_work_all [of w AREAS "[]"] assms by (auto simp add: ready_def)
  then show "all_succeeded (fst (process_all all_tools_work AREAS [] w))"
    and "files (snd (process_all all_tools_work AREAS [] w)) report_file = files w report_file"
    by (simp_all add: all_succeeded_def)
qed

lemma report_file_samples:
  "files seven_worlds report_file = None" "files report_blocked report_file = Some Blocked"
  by (simp_all add: AREAS_def seven_worlds_def report_blocked_def world_of_def report_file_def)

text \<open>
  All seven areas are converted, given traffic and configured, but the path of the final
  report cannot be opened for writing: \<open>generate_final_report\<close> raises, \<open>main\<close>
  has no handler for it, and the interpreter ends the process with exit code 1.
\<close>

theorem unwritable_report_exits_one:
  "all_succeeded (fst (process_all all_tools_work AREAS [] report_blocked)) \<and>
   exit_code (fst (main all_tools_work sample_clock report_blocked)) = 1"
  using all_tools_work_batch [OF ready_samples(2)] report_file_samples(2)
    main_exit_code [of all_tools_work sample_clock report_blocked]
  by simp

text \<open>
  Claim C8, as amended. The exit code of the batch command is 0 exactly when every area
  of \<open>AREAS\<close> ends with status \<open>Success\<close> and the final report can be written after
  the last area; in every other case it is 1.
\<close>

theorem exit_zero_iff_all_succeed_and_report_written:
  "(exit_code (fst (main e c w)) = 0) =
     (all_succeeded (fst (process_all e AREAS [] w)) \<and>
      files (snd (process_all e AREAS [] w)) report_file \<noteq> Some Blocked) \<and>
   (exit_code (fst (main e c w)) = 0 \<or> exit_code (fst (main e c w)) = 1)"
  using main_exit_code [of e c w] by simp

text \<open>
  With working tools and the seven source files in place the batch ends with exit code 0.
\<close>

theorem exit_zero_iff_all_succeed_and_report_written_witness:
  "exit_code (fst (main all_tools_work sample_clock seven_worlds)) = 0"
  using exit_zero_iff_all_succeed_and_report_written [of all_tools_work sample_clock seven_worlds]
    all_tools_work_batch [OF ready_samples(1)] report_file_samples(1)
  by simp

end
